theory Spec2Isabelle
  imports Complex_Main
begin

section \<open>The document question-answering tool (app.py)\<close>

text \<open>
  The development embeds the classes \<^verbatim>\<open>DuckDuckGoSearch\<close>, \<^verbatim>\<open>DocumentLoader\<close> and
  \<^verbatim>\<open>HuggingFaceQA\<close> of \<^verbatim>\<open>Task 2/app.py\<close>. Methods that assign fields of \<^verbatim>\<open>self\<close> take
  the object and return it updated. A \<^verbatim>\<open>try\<close> block is a definition whose result is a sum
  (\<open>Inl\<close> the exception that was raised); the enclosing method applies the \<^verbatim>\<open>except\<close>
  handler to it. Calls into third-party libraries (the search session, the document
  parsers, the embedding model, the FAISS index, the question-answering pipeline) and
  the operations on the temporary file are parameters, each of which may raise. \<^verbatim>\<open>print\<close> is not modelled. A Python string is a
  \<open>string\<close>, one \<open>char\<close> for each character that \<^verbatim>\<open>len\<close> counts.
\<close>

subsection \<open>Python values\<close>

text \<open>An exception is known to the program only through \<^verbatim>\<open>str(e)\<close>.\<close>

datatype exn = Exception (str: string)

text \<open>A byte string; a \<open>char\<close> of HOL is one byte.\<close>

type_synonym bytes = "char list"

text \<open>\<^verbatim>\<open>s.endswith(suf)\<close>.\<close>

definition endswith :: "string \<Rightarrow> string \<Rightarrow> bool" where
  "endswith s suf \<longleftrightarrow> length suf \<le> length s \<and> drop (length s - length suf) s = suf"

text \<open>\<^verbatim>\<open>sep.join(xs)\<close>.\<close>

fun join :: "string \<Rightarrow> string list \<Rightarrow> string" where
  "join sep [] = []"
| "join sep [x] = x"
| "join sep (x # y # ys) = x @ sep @ join sep (y # ys)"

text \<open>
  \<^verbatim>\<open>s[:n]\<close> for a Python integer \<open>n\<close>: a negative bound counts from the end of the
  string, and a bound outside the string is clamped.
\<close>

definition slice_to :: "string \<Rightarrow> int \<Rightarrow> string" where
  "slice_to s n = (if 0 \<le> n then take (nat n) s else take (nat (int (length s) + n)) s)"

text \<open>\<^verbatim>\<open>p.rfind(c)\<close>: the index of the last occurrence of a character, or \<open>-1\<close>.\<close>

fun rfind :: "string \<Rightarrow> char \<Rightarrow> int" where
  "rfind [] c = - 1"
| "rfind (x # xs) c =
     (let r = rfind xs c in if 0 \<le> r then r + 1 else if x = c then 0 else - 1)"

text \<open>
  \<^verbatim>\<open>os.path.splitext(p)[1]\<close> of the standard library (POSIX flavour): the extension
  starts at the last dot of the last path component, and dots that lead that component
  do not start an extension.
\<close>

definition splitext_ext :: "string \<Rightarrow> string" where
  "splitext_ext p =
     (let sepIndex = rfind p (CHR ''/'');
          dotIndex = rfind p (CHR ''.'')
      in if sepIndex < dotIndex \<and>
            list_ex (\<lambda>c. c \<noteq> CHR ''.'')
              (take (nat (dotIndex - (sepIndex + 1))) (drop (nat (sepIndex + 1)) p))
         then drop (nat dotIndex) p
         else [])"

text \<open>\<^verbatim>\<open>d.get(k, default)\<close> on a dictionary.\<close>

definition dict_get :: "('k \<rightharpoonup> 'v) \<Rightarrow> 'k \<Rightarrow> 'v \<Rightarrow> 'v" where
  "dict_get d k dflt = (case d k of None \<Rightarrow> dflt | Some v \<Rightarrow> v)"

subsection \<open>Data\<close>

text \<open>One search result of the provider: a dictionary from field names to strings.\<close>

type_synonym result = "string \<rightharpoonup> string"

text \<open>A parsed content block (a langchain document); only its text is read.\<close>

record langdoc =
  page_content :: string

text \<open>The uploaded file object: \<^verbatim>\<open>file.name\<close> and \<^verbatim>\<open>file.getvalue()\<close>.\<close>

record uploaded_file =
  name :: string
  getvalue :: bytes

text \<open>The files on disk, by path.\<close>

type_synonym fs = "string \<rightharpoonup> bytes"

text \<open>
  The library calls. \<open>named_temporary_file\<close> is \<^verbatim>\<open>NamedTemporaryFile(delete=False, suffix=...)\<close>:
  from the suffix and the disk, the path of the file it creates, or the exception it
  raises. \<open>tmp_write\<close> is \<^verbatim>\<open>tmp.write(...)\<close> with the closing of the file at the end of the
  \<^verbatim>\<open>with\<close> block, and \<open>os_remove\<close> is \<^verbatim>\<open>os.remove\<close>; each of them completes or raises.
\<close>

record ('ix, 'emb) collaborators =
  ddgs_text :: "string \<Rightarrow> int \<Rightarrow> exn + result list"
  decode_utf8 :: "bytes \<Rightarrow> exn + string"
  pdf_loader_load :: "string \<Rightarrow> fs \<Rightarrow> exn + langdoc list"
  docx_loader_load :: "string \<Rightarrow> fs \<Rightarrow> exn + langdoc list"
  text_loader_load :: "string \<Rightarrow> fs \<Rightarrow> exn + langdoc list"
  new_embeddings :: "exn + 'emb"
  from_documents :: "langdoc list \<Rightarrow> 'emb \<Rightarrow> exn + 'ix"
  similarity_search :: "'ix \<Rightarrow> string \<Rightarrow> nat \<Rightarrow> exn + langdoc list"
  named_temporary_file :: "string \<Rightarrow> fs \<Rightarrow> exn + string"
  tmp_write :: "string \<Rightarrow> bytes \<Rightarrow> exn + unit"
  os_remove :: "string \<Rightarrow> fs \<Rightarrow> exn + unit"

text \<open>The fields of a \<^verbatim>\<open>DocumentLoader\<close>.\<close>

record ('ix, 'emb) DocumentLoader =
  default_documents :: "string \<rightharpoonup> string"
  current_document :: string
  document_source :: string
  vector_store :: "'ix option"
  embeddings :: "'emb option"

subsection \<open>DuckDuckGoSearch.search\<close>

definition format_result :: "result \<Rightarrow> string" where
  "format_result r =
     (let title = dict_get r ''title'' ''No title available'';
          snippet = dict_get r ''body'' (dict_get r ''snippet'' ''No description available'');
          url = dict_get r ''href'' ''No link available''
      in title @ ''\<newline>'' @ ''Summary: '' @ snippet @ ''\<newline>'' @ ''URL: '' @ url @ ''\<newline>'')"

text \<open>The \<^verbatim>\<open>try\<close> block of \<^verbatim>\<open>search\<close>.\<close>

definition search_body :: "('ix, 'emb) collaborators \<Rightarrow> string \<Rightarrow> int \<Rightarrow> exn + string" where
  "search_body C query max_results =
     (case ddgs_text C query max_results of
        Inl e \<Rightarrow> Inl e
      | Inr search_results \<Rightarrow>
          if search_results = [] then Inr ''No results found. Try modifying your search query.''
          else Inr (join ''\<newline>\<newline>'' (map format_result search_results)))"

definition search :: "('ix, 'emb) collaborators \<Rightarrow> string \<Rightarrow> int \<Rightarrow> string" where
  "search C query max_results =
     (case search_body C query max_results of
        Inl e \<Rightarrow> ''Search error: '' @ str e
      | Inr s \<Rightarrow> s)"

subsection \<open>DocumentLoader\<close>

definition solar_energy_text :: string where
  "solar_energy_text = ''Solar energy is one of the most abundant renewable resources available today. It is generated by converting sunlight into electricity. Solar panels, also known as photovoltaic panels, capture sunlight and convert it into usable electricity through the photovoltaic effect. This clean energy source produces no emissions during operation and is becoming increasingly cost-effective. Solar power can be used in large utility-scale installations or small residential systems, making it versatile for various applications.''"

definition ai_ethics_text :: string where
  "ai_ethics_text = ''AI Ethics encompasses the moral principles and guidelines governing the development and use of artificial intelligence systems. Key concerns include privacy, bias and fairness, transparency, accountability, and the impact on employment. As AI becomes more integrated into daily life, ensuring these systems are designed with ethical considerations becomes increasingly important. Some propose regulatory frameworks while others advocate for industry self-regulation. The field continues to evolve as new AI capabilities emerge.''"

definition renewable_energy_text :: string where
  "renewable_energy_text = ''Renewable energy comes from naturally replenished sources such as sunlight, wind, water, and geothermal heat. Unlike fossil fuels, renewable energy sources won't deplete over time. Major types include solar, wind, hydroelectric, biomass, and geothermal power. The renewable energy sector is growing rapidly worldwide as countries seek to reduce carbon emissions and combat climate change. Technological advances continue to make renewable energy increasingly cost-competitive with conventional energy sources.''"

text \<open>\<^verbatim>\<open>__init__\<close>.\<close>

definition init :: "('ix, 'emb) DocumentLoader" where
  "init = \<lparr>default_documents =
             [''solar_energy'' \<mapsto> solar_energy_text,
              ''ai_ethics'' \<mapsto> ai_ethics_text,
              ''renewable_energy'' \<mapsto> renewable_energy_text],
           current_document = [],
           document_source = ''None'',
           vector_store = None,
           embeddings = None\<rparr>"

definition load_from_text ::
  "('ix, 'emb) DocumentLoader \<Rightarrow> string \<Rightarrow> string \<times> ('ix, 'emb) DocumentLoader" where
  "load_from_text self text =
     (let self1 = self\<lparr>current_document := text\<rparr>;
          self2 = self1\<lparr>document_source := ''User input''\<rparr>
      in (current_document self2, self2))"

definition load_from_example ::
  "('ix, 'emb) DocumentLoader \<Rightarrow> string \<Rightarrow> string \<times> ('ix, 'emb) DocumentLoader" where
  "load_from_example self example_key =
     (case default_documents self example_key of
        Some doc \<Rightarrow>
          (let self1 = self\<lparr>current_document := doc\<rparr>;
               self2 = self1\<lparr>document_source := ''Example: '' @ example_key\<rparr>
           in (current_document self2, self2))
      | None \<Rightarrow> (''Example not found. Please select a valid example.'', self))"

text \<open>
  The \<^verbatim>\<open>try\<close> block of \<^verbatim>\<open>load_from_web_search\<close>. \<^verbatim>\<open>search\<close> handles every exception
  itself and returns a string, so the block always completes.
\<close>

definition load_from_web_search_body ::
  "('ix, 'emb) collaborators \<Rightarrow> ('ix, 'emb) DocumentLoader \<Rightarrow> string \<Rightarrow> string \<Rightarrow> int
     \<Rightarrow> (exn + string) \<times> ('ix, 'emb) DocumentLoader" where
  "load_from_web_search_body C self query source max_results =
     (let content = search C query max_results;
          source_name = ''DuckDuckGo Search'';
          self1 = self\<lparr>current_document := content\<rparr>;
          self2 = self1\<lparr>document_source := source_name @ '': '' @ query\<rparr>
      in (Inr (current_document self2), self2))"

definition load_from_web_search ::
  "('ix, 'emb) collaborators \<Rightarrow> ('ix, 'emb) DocumentLoader \<Rightarrow> string \<Rightarrow> string \<Rightarrow> int
     \<Rightarrow> string \<times> ('ix, 'emb) DocumentLoader" where
  "load_from_web_search C self query source max_results =
     (case load_from_web_search_body C self query source max_results of
        (Inl e, self') \<Rightarrow> (''Web search error: '' @ str e, self')
      | (Inr r, self') \<Rightarrow> (r, self'))"

text \<open>
  The choice of parser in \<^verbatim>\<open>load_from_file\<close>, by the suffix of the temporary path, and
  \<^verbatim>\<open>loader.load()\<close>.
\<close>

definition loader_load ::
  "('ix, 'emb) collaborators \<Rightarrow> string \<Rightarrow> fs \<Rightarrow> exn + langdoc list" where
  "loader_load C temp_path disk =
     (if endswith temp_path ''.pdf'' then pdf_loader_load C temp_path disk
      else if endswith temp_path ''.docx'' then docx_loader_load C temp_path disk
      else text_loader_load C temp_path disk)"

text \<open>
  The statement \<^verbatim>\<open>if len(text_content) > 100: ...\<close> of \<^verbatim>\<open>load_from_file\<close>. The
  \<^verbatim>\<open>embeddings\<close> field is assigned before the index is built, so it keeps its new value
  when the build raises.
\<close>

definition create_vector_store ::
  "('ix, 'emb) collaborators \<Rightarrow> ('ix, 'emb) DocumentLoader \<Rightarrow> langdoc list \<Rightarrow> string
     \<Rightarrow> (exn + unit) \<times> ('ix, 'emb) DocumentLoader" where
  "create_vector_store C self docs text_content =
     (if 100 < length text_content then
        (case new_embeddings C of
           Inl e \<Rightarrow> (Inl e, self)
         | Inr emb \<Rightarrow>
             (let self1 = self\<lparr>embeddings := Some emb\<rparr>
              in case from_documents C docs emb of
                   Inl e \<Rightarrow> (Inl e, self1)
                 | Inr ix \<Rightarrow> (Inr (), self1\<lparr>vector_store := Some ix\<rparr>)))
      else (Inr (), self))"

text \<open>The inner \<^verbatim>\<open>try\<close> block of \<^verbatim>\<open>load_from_file\<close>, the one with the \<^verbatim>\<open>finally\<close>.\<close>

definition load_structured ::
  "('ix, 'emb) collaborators \<Rightarrow> ('ix, 'emb) DocumentLoader \<Rightarrow> fs \<Rightarrow> uploaded_file \<Rightarrow> string
     \<Rightarrow> (exn + unit) \<times> ('ix, 'emb) DocumentLoader" where
  "load_structured C self disk file temp_path =
     (case loader_load C temp_path disk of
        Inl e \<Rightarrow> (Inl e, self)
      | Inr docs \<Rightarrow>
          (let text_content = join ''\<newline>\<newline>'' (map page_content docs)
           in case create_vector_store C self docs text_content of
                (Inl e, self1) \<Rightarrow> (Inl e, self1)
              | (Inr u, self1) \<Rightarrow>
                  (let self2 = self1\<lparr>current_document := text_content\<rparr>;
                       self3 = self2\<lparr>document_source := name file\<rparr>
                   in (Inr (), self3))))"

text \<open>
  The \<^verbatim>\<open>with\<close> block of \<^verbatim>\<open>load_from_file\<close>, which stands before the inner \<^verbatim>\<open>try\<close>.
  The file is created empty and, because of \<^verbatim>\<open>delete=False\<close>, stays on disk when the
  block is left; a write that raises leaves it as it was created.
\<close>

definition write_temporary_file ::
  "('ix, 'emb) collaborators \<Rightarrow> fs \<Rightarrow> uploaded_file \<Rightarrow> (exn + string) \<times> fs" where
  "write_temporary_file C disk file =
     (case named_temporary_file C (splitext_ext (name file)) disk of
        Inl e \<Rightarrow> (Inl e, disk)
      | Inr temp_path \<Rightarrow>
          (let disk1 = disk(temp_path \<mapsto> [])
           in case tmp_write C temp_path (getvalue file) of
                Inl e \<Rightarrow> (Inl e, disk1)
              | Inr u \<Rightarrow> (Inr temp_path, disk1(temp_path \<mapsto> getvalue file))))"

text \<open>
  The \<^verbatim>\<open>finally\<close> clause of \<^verbatim>\<open>load_from_file\<close>: the file is removed if it exists. A
  removal that raises leaves the file on disk.
\<close>

definition remove_temporary_file ::
  "('ix, 'emb) collaborators \<Rightarrow> string \<Rightarrow> fs \<Rightarrow> (exn + unit) \<times> fs" where
  "remove_temporary_file C temp_path disk =
     (if disk temp_path \<noteq> None then
        (case os_remove C temp_path disk of
           Inl e \<Rightarrow> (Inl e, disk)
         | Inr u \<Rightarrow> (Inr (), disk(temp_path := None)))
      else (Inr (), disk))"

text \<open>
  The outer \<^verbatim>\<open>try\<close> block of \<^verbatim>\<open>load_from_file\<close>. An exception of the \<^verbatim>\<open>with\<close> block
  leaves the method before the inner \<^verbatim>\<open>try\<close> is entered, so the \<^verbatim>\<open>finally\<close> clause does
  not run for it. The \<^verbatim>\<open>finally\<close> clause runs whether the inner block completed or
  raised, and an exception raised in it replaces the one of the inner block.
\<close>

definition load_from_file_body ::
  "('ix, 'emb) collaborators \<Rightarrow> ('ix, 'emb) DocumentLoader \<Rightarrow> fs \<Rightarrow> uploaded_file
     \<Rightarrow> (exn + string) \<times> ('ix, 'emb) DocumentLoader \<times> fs" where
  "load_from_file_body C self disk file =
     (if endswith (name file) ''.txt'' \<or> endswith (name file) ''.md'' then
        (case decode_utf8 C (getvalue file) of
           Inl e \<Rightarrow> (Inl e, self, disk)
         | Inr text \<Rightarrow>
             (let self1 = self\<lparr>current_document := text\<rparr>;
                  self2 = self1\<lparr>document_source := name file\<rparr>
              in (Inr (current_document self2), self2, disk)))
      else
        (case write_temporary_file C disk file of
           (Inl e, disk1) \<Rightarrow> (Inl e, self, disk1)
         | (Inr temp_path, disk1) \<Rightarrow>
             (case load_structured C self disk1 file temp_path of
                (r, self1) \<Rightarrow>
                  (case remove_temporary_file C temp_path disk1 of
                     (Inl e, disk2) \<Rightarrow> (Inl e, self1, disk2)
                   | (Inr u, disk2) \<Rightarrow>
                       (case r of
                          Inl e \<Rightarrow> (Inl e, self1, disk2)
                        | Inr u \<Rightarrow> (Inr (current_document self1), self1, disk2))))))"

definition load_from_file ::
  "('ix, 'emb) collaborators \<Rightarrow> ('ix, 'emb) DocumentLoader \<Rightarrow> fs \<Rightarrow> uploaded_file
     \<Rightarrow> string \<times> ('ix, 'emb) DocumentLoader \<times> fs" where
  "load_from_file C self disk file =
     (case load_from_file_body C self disk file of
        (Inl e, self', disk') \<Rightarrow> (''File loading error: '' @ str e, self', disk')
      | (Inr r, self', disk') \<Rightarrow> (r, self', disk'))"

text \<open>The \<^verbatim>\<open>try\<close> block of \<^verbatim>\<open>get_relevant_context\<close>.\<close>

definition vector_search ::
  "('ix, 'emb) collaborators \<Rightarrow> 'ix \<Rightarrow> string \<Rightarrow> int \<Rightarrow> exn + string" where
  "vector_search C vs query max_chars =
     (case similarity_search C vs query 3 of
        Inl e \<Rightarrow> Inl e
      | Inr docs \<Rightarrow>
          (let relevant_text = join ''\<newline>\<newline>'' (map page_content docs)
           in if max_chars < int (length relevant_text)
              then Inr (slice_to relevant_text max_chars @ ''...'')
              else Inr relevant_text))"

text \<open>The last three lines of \<^verbatim>\<open>get_relevant_context\<close>: the whole document or part of it.\<close>

definition full_document :: "('ix, 'emb) DocumentLoader \<Rightarrow> int \<Rightarrow> string" where
  "full_document self max_chars =
     (if max_chars < int (length (current_document self))
      then slice_to (current_document self) max_chars @ ''...''
      else current_document self)"

text \<open>
  \<^verbatim>\<open>get_relevant_context\<close>. The index is used when both \<^verbatim>\<open>vector_store\<close> and
  \<^verbatim>\<open>embeddings\<close> are set; when the search raises, control falls through to the whole
  document. The method assigns no field.
\<close>

definition get_relevant_context ::
  "('ix, 'emb) collaborators \<Rightarrow> ('ix, 'emb) DocumentLoader \<Rightarrow> string \<Rightarrow> int
     \<Rightarrow> string \<times> ('ix, 'emb) DocumentLoader" where
  "get_relevant_context C self query max_chars =
     (case (vector_store self, embeddings self) of
        (Some vs, Some emb) \<Rightarrow>
          (case vector_search C vs query max_chars of
             Inl e \<Rightarrow> (full_document self max_chars, self)
           | Inr r \<Rightarrow> (r, self))
      | _ \<Rightarrow> (full_document self max_chars, self))"

subsection \<open>HuggingFaceQA\<close>

text \<open>The dictionary that \<^verbatim>\<open>answer_question\<close> returns, by its keys \<open>answer\<close> and \<open>score\<close>.\<close>

record qa_result =
  answer :: string
  score :: real

record HuggingFaceQA =
  qa_pipeline :: "(string \<Rightarrow> string \<Rightarrow> exn + qa_result) option"

text \<open>\<^verbatim>\<open>__init__\<close>: a pipeline that cannot be loaded leaves the field \<^verbatim>\<open>None\<close>.\<close>

definition HuggingFaceQA_init :: "(exn + (string \<Rightarrow> string \<Rightarrow> exn + qa_result)) \<Rightarrow> HuggingFaceQA" where
  "HuggingFaceQA_init get_hf_pipeline =
     (case get_hf_pipeline of
        Inl e \<Rightarrow> \<lparr>qa_pipeline = None\<rparr>
      | Inr p \<Rightarrow> \<lparr>qa_pipeline = Some p\<rparr>)"

text \<open>The \<^verbatim>\<open>try\<close> block of \<^verbatim>\<open>answer_question\<close>.\<close>

definition answer_question_body :: "HuggingFaceQA \<Rightarrow> string \<Rightarrow> string \<Rightarrow> exn + qa_result" where
  "answer_question_body self question context =
     (case qa_pipeline self of
        None \<Rightarrow> Inr \<lparr>answer = ''QA pipeline not initialized'', score = 0.0\<rparr>
      | Some p \<Rightarrow> p question context)"

definition answer_question :: "HuggingFaceQA \<Rightarrow> string \<Rightarrow> string \<Rightarrow> qa_result" where
  "answer_question self question context =
     (case answer_question_body self question context of
        Inl e \<Rightarrow> \<lparr>answer = ''QA error: '' @ str e, score = 0.0\<rparr>
      | Inr result \<Rightarrow> result)"

subsection \<open>A client of the loader\<close>

text \<open>
  The four ingestion methods as one type of call, and a client that makes a sequence of
  calls on one loader, each on the object and the disk that the call before it left.
\<close>

datatype ingestion =
    Load_from_text string
  | Load_from_file uploaded_file
  | Load_from_web_search string string int
  | Load_from_example string

fun ingest ::
  "('ix, 'emb) collaborators \<Rightarrow> ('ix, 'emb) DocumentLoader \<times> fs \<Rightarrow> ingestion
     \<Rightarrow> ('ix, 'emb) DocumentLoader \<times> fs" where
  "ingest C (self, disk) (Load_from_text text) = (snd (load_from_text self text), disk)"
| "ingest C (self, disk) (Load_from_file file) = snd (load_from_file C self disk file)"
| "ingest C (self, disk) (Load_from_web_search query source max_results) =
     (snd (load_from_web_search C self query source max_results), disk)"
| "ingest C (self, disk) (Load_from_example example_key) =
     (snd (load_from_example self example_key), disk)"

definition ingest_all ::
  "('ix, 'emb) collaborators \<Rightarrow> ingestion list \<Rightarrow> ('ix, 'emb) DocumentLoader \<times> fs" where
  "ingest_all C calls = foldl (ingest C) (init, Map.empty) calls"

subsection \<open>The search document as the specification words it\<close>

text \<open>
  The specification describes the text of a search document as the blocks
  \<^verbatim>\<open>{title}\nSummary: {snippet}\nURL: {url}\<close>, one for each result, joined by blank
  lines. \<open>spec_block\<close> and \<open>spec_document\<close> follow these words, with the three fields
  read from a result as \<^verbatim>\<open>search\<close> reads them.
\<close>

definition spec_block :: "result \<Rightarrow> string" where
  "spec_block r =
     dict_get r ''title'' ''No title available'' @ ''\<newline>'' @
     ''Summary: '' @ dict_get r ''body'' (dict_get r ''snippet'' ''No description available'') @ ''\<newline>'' @
     ''URL: '' @ dict_get r ''href'' ''No link available''"

definition spec_document :: "result list \<Rightarrow> string" where
  "spec_document rs = join ''\<newline>\<newline>'' (map spec_block rs)"

subsection \<open>Concrete collaborators\<close>

text \<open>
  Collaborators on which the definitions can be run: a search provider with no results,
  parsers that return the bytes of the file as one content block, an index that stores
  the blocks it is given and returns the first \<open>k\<close> of them, a temporary file that is
  created, written and removed without failure. Variants whose provider, parser, index
  builder or file operation raises are obtained by updating a field.
\<close>

definition read_block :: "string \<Rightarrow> fs \<Rightarrow> exn + langdoc list" where
  "read_block path disk =
     (case disk path of
        None \<Rightarrow> Inl (Exception ''No such file'')
      | Some b \<Rightarrow> Inr [\<lparr>page_content = b\<rparr>])"

definition stub :: "(langdoc list, unit) collaborators" where
  "stub = \<lparr>ddgs_text = (\<lambda>query max_results. Inr []),
           decode_utf8 = (\<lambda>b. Inr b),
           pdf_loader_load = read_block,
           docx_loader_load = read_block,
           text_loader_load = read_block,
           new_embeddings = Inr (),
           from_documents = (\<lambda>docs emb. Inr docs),
           similarity_search = (\<lambda>ix query k. Inr (take k ix)),
           named_temporary_file = (\<lambda>suffix disk. Inr (''/tmp/tmpk3x9qz1a'' @ suffix)),
           tmp_write = (\<lambda>path b. Inr ()),
           os_remove = (\<lambda>path disk. Inr ())\<rparr>"

definition raising :: "string \<Rightarrow> 'a \<Rightarrow> 'b \<Rightarrow> exn + 'c" where
  "raising msg x y = Inl (Exception msg)"

definition one_result :: result where
  "one_result = [''title'' \<mapsto> ''Isabelle'', ''body'' \<mapsto> ''A proof assistant'', ''href'' \<mapsto> ''https://isabelle.in.tum.de'']"

definition found_one :: "string \<Rightarrow> int \<Rightarrow> exn + result list" where
  "found_one query max_results = Inr [one_result]"

definition long_pdf :: uploaded_file where
  "long_pdf = \<lparr>name = ''report.pdf'', getvalue = replicate 101 (CHR ''a'')\<rparr>"

definition short_docx :: uploaded_file where
  "short_docx = \<lparr>name = ''note.docx'', getvalue = ''short note''\<rparr>"

definition long_docx :: uploaded_file where
  "long_docx = \<lparr>name = ''thesis.docx'', getvalue = replicate 150 (CHR ''b'')\<rparr>"

section \<open>Properties\<close>

subsection \<open>Auxiliary facts\<close>

lemma splitext_ext_report_pdf: "splitext_ext ''report.pdf'' = ''.pdf''"
  by (simp add: splitext_ext_def Let_def)

lemma splitext_ext_note_docx: "splitext_ext ''note.docx'' = ''.docx''"
  by (simp add: splitext_ext_def Let_def)

lemma splitext_ext_thesis_docx: "splitext_ext ''thesis.docx'' = ''.docx''"
  by (simp add: splitext_ext_def Let_def)

lemmas run_defs =
  load_from_file_def load_from_file_body_def write_temporary_file_def
  remove_temporary_file_def load_structured_def loader_load_def
  create_vector_store_def load_from_text_def load_from_example_def
  load_from_web_search_def load_from_web_search_body_def search_def search_body_def
  get_relevant_context_def vector_search_def full_document_def slice_to_def
  format_result_def dict_get_def endswith_def Let_def

lemmas stub_defs =
  stub_def read_block_def raising_def found_one_def one_result_def long_pdf_def
  short_docx_def long_docx_def init_def ingest_all_def
  splitext_ext_report_pdf splitext_ext_note_docx splitext_ext_thesis_docx

lemma length_slice_to: "0 \<le> n \<Longrightarrow> int (length (slice_to s n)) \<le> n"
  by (simp add: slice_to_def)

lemma length_full_document:
  "0 \<le> max_chars \<Longrightarrow> int (length (full_document self max_chars)) \<le> max_chars + 3"
  using length_slice_to [of max_chars "current_document self"]
  by (simp add: full_document_def)

lemma length_vector_search:
  assumes "0 \<le> max_chars" and "vector_search C vs query max_chars = Inr r"
  shows "int (length r) \<le> max_chars + 3"
proof (cases "similarity_search C vs query 3")
  case (Inl e)
  with assms(2) show ?thesis by (simp add: vector_search_def)
next
  case (Inr docs)
  let ?t = "join ''\<newline>\<newline>'' (map page_content docs)"
  show ?thesis
  proof (cases "max_chars < int (length ?t)")
    case True
    with Inr assms(2) have "r = slice_to ?t max_chars @ ''...''"
      by (auto simp: vector_search_def Let_def)
    with length_slice_to [OF assms(1), of ?t] show ?thesis by simp
  next
    case False
    with Inr assms(2) have "r = ?t"
      by (auto simp: vector_search_def Let_def)
    with False show ?thesis by simp
  qed
qed

lemma load_from_web_search_eq:
  "load_from_web_search C self query source max_results =
     (search C query max_results,
      self\<lparr>current_document := search C query max_results,
           document_source := ''DuckDuckGo Search: '' @ query\<rparr>)"
  by (simp add: load_from_web_search_def load_from_web_search_body_def Let_def)

lemma join_terminated:
  "xs \<noteq> [] \<Longrightarrow> join sep (map (\<lambda>x. f x @ t) xs) = join (t @ sep) (map f xs) @ t"
  by (induction xs rule: induct_list012) simp_all

lemma format_result_spec_block: "format_result r = spec_block r @ ''\<newline>''"
  by (simp add: format_result_def spec_block_def Let_def)

subsection \<open>C2: the length of the selected context\<close>

text \<open>
  C2 as stated: for every question, loader state and \<open>max_chars\<close>, the string that
  \<^verbatim>\<open>get_relevant_context\<close> returns has at most \<open>max_chars + 3\<close> characters, on the
  index-backed path and on the raw-text path. \<open>max_chars\<close> is a Python integer, and for
  a negative one the slice \<^verbatim>\<open>s[:max_chars]\<close> drops characters from the end instead of
  keeping a prefix: with \<open>max_chars = -1\<close> the six-character document comes back as
  eight characters, and the 101-character passage of an indexed file as 103, while the
  bound is 2.
\<close>

theorem C2_negative_max_chars_counterexample:
  "\<not> int (length (fst (get_relevant_context stub (init\<lparr>current_document := ''abcdef''\<rparr>) ''q'' (- 1)))) \<le> - 1 + 3
   \<and> \<not> int (length (fst (get_relevant_context stub
            (fst (snd (load_from_file stub init Map.empty long_pdf))) ''q'' (- 1)))) \<le> - 1 + 3"
  by (simp add: run_defs stub_defs)

text \<open>
  C2, amended: for every question, every loader state and every \<open>max_chars \<ge> 0\<close>, the
  string returned by \<^verbatim>\<open>get_relevant_context\<close> has length at most \<open>max_chars + 3\<close>, on
  the index-backed path, on the raw-text path, and when the similarity search raises.
\<close>

theorem C2_context_length_bound:
  "0 \<le> max_chars \<Longrightarrow>
   int (length (fst (get_relevant_context C self query max_chars))) \<le> max_chars + 3"
  using length_full_document [of max_chars self] length_vector_search [of max_chars C _ query]
  by (auto simp: get_relevant_context_def split: option.splits sum.splits)

theorem C2_context_length_bound_witness:
  "(0::int) \<le> 10 \<and>
   fst (get_relevant_context stub (fst (snd (load_from_file stub init Map.empty long_pdf))) ''q'' 10)
     = replicate 10 (CHR ''a'') @ ''...'' \<and>
   int (length (fst (get_relevant_context stub
     (fst (snd (load_from_file stub init Map.empty long_pdf))) ''q'' 10))) \<le> 10 + 3"
  using C2_context_length_bound [of 10 stub "fst (snd (load_from_file stub init Map.empty long_pdf))" "''q''"]
  by (simp add: run_defs stub_defs)

subsection \<open>C4: a search without results\<close>

text \<open>
  C4: for every query for which the search provider returns an empty sequence of
  results, \<^verbatim>\<open>load_from_web_search\<close> succeeds, returns the fixed sentinel string
  \<^verbatim>\<open>No results found. Try modifying your search query.\<close> and makes it the current
  document, with the source label \<^verbatim>\<open>DuckDuckGo Search: \<close> followed by the query; it
  produces no error message.
\<close>

theorem C4_no_results_sentinel:
  "ddgs_text C query max_results = Inr [] \<Longrightarrow>
   load_from_web_search C self query source max_results =
     (''No results found. Try modifying your search query.'',
      self\<lparr>current_document := ''No results found. Try modifying your search query.'',
           document_source := ''DuckDuckGo Search: '' @ query\<rparr>)"
  by (simp add: load_from_web_search_eq search_def search_body_def)

theorem C4_no_results_sentinel_witness:
  "ddgs_text stub ''zxqv'' 3 = Inr [] \<and>
   current_document (snd (load_from_web_search stub init ''zxqv'' ''duckduckgo'' 3)) =
     ''No results found. Try modifying your search query.''"
  using C4_no_results_sentinel [of stub "''zxqv''" 3 init "''duckduckgo''"]
  by (simp add: stub_def)

subsection \<open>C5: the text of a search document\<close>

text \<open>
  C5 as stated: for every non-empty sequence of results, the document text is the
  blocks \<^verbatim>\<open>{title}\nSummary: {snippet}\nURL: {url}\<close> joined by blank lines, with no
  other character added (\<open>spec_document\<close>). The format string of \<^verbatim>\<open>search\<close> ends every
  block with a newline of its own, so already for one result the text differs from the
  block by a final newline.
\<close>

theorem C5_trailing_newline_counterexample:
  "current_document (snd (load_from_web_search (stub\<lparr>ddgs_text := found_one\<rparr>) init ''isabelle'' ''duckduckgo'' 3))
     \<noteq> spec_document [one_result]"
  by (simp add: run_defs stub_defs spec_document_def spec_block_def)

text \<open>
  C5, amended: for every non-empty sequence of results, the document text produced by
  \<^verbatim>\<open>load_from_web_search\<close> consists of one block \<^verbatim>\<open>{title}\nSummary: {snippet}\nURL: {url}\<close>
  for each result, in the provider's order, every block followed by a newline and the
  terminated blocks joined by \<^verbatim>\<open>\n\n\<close>: consecutive blocks are separated by three
  newline characters and the text ends with one newline. The title is the result's
  \<open>title\<close>, the snippet its \<open>body\<close> (or else its \<open>snippet\<close>), the URL its \<open>href\<close>, each
  with a fixed placeholder when the key is missing.
\<close>

theorem C5_search_document_text:
  assumes "ddgs_text C query max_results = Inr rs" and "rs \<noteq> []"
  shows "current_document (snd (load_from_web_search C self query source max_results)) =
           join ''\<newline>\<newline>\<newline>'' (map spec_block rs) @ ''\<newline>''"
proof -
  have "search C query max_results = join ''\<newline>\<newline>'' (map format_result rs)"
    using assms by (simp add: search_def search_body_def)
  also have "map format_result rs = map (\<lambda>r. spec_block r @ ''\<newline>'') rs"
    by (simp add: format_result_spec_block)
  also have "join ''\<newline>\<newline>'' \<dots> = join (''\<newline>'' @ ''\<newline>\<newline>'') (map spec_block rs) @ ''\<newline>''"
    using assms(2) by (rule join_terminated)
  finally show ?thesis by (simp add: load_from_web_search_eq)
qed

theorem C5_search_document_text_witness:
  "ddgs_text (stub\<lparr>ddgs_text := found_one\<rparr>) ''isabelle'' 3 = Inr [one_result] \<and> [one_result] \<noteq> [] \<and>
   current_document (snd (load_from_web_search (stub\<lparr>ddgs_text := found_one\<rparr>) init ''isabelle'' ''duckduckgo'' 3)) =
     ''Isabelle\<newline>Summary: A proof assistant\<newline>URL: https://isabelle.in.tum.de\<newline>''"
  using C5_search_document_text [of "stub\<lparr>ddgs_text := found_one\<rparr>" "''isabelle''" 3 "[one_result]" init "''duckduckgo''"]
  by (simp add: stub_defs spec_block_def dict_get_def)

subsection \<open>C1: one document, one index\<close>

text \<open>
  C1: for every sequence of ingestion calls on a loader, every successful ingestion of a
  new source drops the previous document and the previous index together, so that
  \<^verbatim>\<open>get_relevant_context\<close> never retrieves passages of a document that is no longer
  current. The code assigns \<^verbatim>\<open>vector_store\<close> only where \<^verbatim>\<open>load_from_file\<close> builds a new
  index, and no method clears it. The theorem runs the code on a file of 101
  characters followed by \<^verbatim>\<open>load_from_text('hello')\<close>: the current document is
  \<^verbatim>\<open>hello\<close>, the index is still the one of the file, and \<^verbatim>\<open>get_relevant_context\<close>
  returns the passage of the file.
\<close>

theorem C1_stale_index_after_new_document:
  "current_document (fst (ingest_all stub [Load_from_file long_pdf, Load_from_text ''hello''])) = ''hello'' \<and>
   vector_store (fst (ingest_all stub [Load_from_file long_pdf, Load_from_text ''hello''])) =
     Some [\<lparr>page_content = getvalue long_pdf\<rparr>] \<and>
   fst (get_relevant_context stub
          (fst (ingest_all stub [Load_from_file long_pdf, Load_from_text ''hello''])) ''q'' 8000) =
     getvalue long_pdf"
  by (simp add: run_defs stub_defs)

text \<open>
  Only \<^verbatim>\<open>load_from_file\<close> assigns the index: the three other ingestion methods replace
  the document and leave \<^verbatim>\<open>vector_store\<close> and \<^verbatim>\<open>embeddings\<close> as they find them.
\<close>

lemma ingest_keeps_index:
  assumes "\<And>file. call \<noteq> Load_from_file file"
  shows "vector_store (fst (ingest C (self, disk) call)) = vector_store self \<and>
         embeddings (fst (ingest C (self, disk) call)) = embeddings self"
  using assms
  by (cases call)
     (auto simp: load_from_text_def load_from_example_def load_from_web_search_eq Let_def
        split: option.splits)

subsection \<open>C3: ingestion calls that fail\<close>

text \<open>
  In \<^verbatim>\<open>load_from_file\<close>, a file-read error, a failure to create or to write the
  temporary file, a parser error, and an error of the embedding model or of the index
  build leave the method through its handler: the call returns \<^verbatim>\<open>File loading error: \<close>
  followed by the message, and \<^verbatim>\<open>current_document\<close> and \<^verbatim>\<open>document_source\<close> are as before
  the call. The removal of the temporary file is taken not to raise here: a removal
  that raises after a successful parse reports an error for a document that has been
  loaded.
\<close>

lemma load_structured_error_keeps_document:
  assumes "load_structured C self disk file temp_path = (Inl e, self1)"
  shows "current_document self1 = current_document self \<and>
         document_source self1 = document_source self"
  using assms
  by (auto simp: load_structured_def create_vector_store_def Let_def
      split: sum.splits prod.splits if_splits)

lemma load_from_file_error_keeps_document:
  assumes "load_from_file_body C self disk file = (Inl e, self', disk')"
    and "\<And>path d. os_remove C path d = Inr ()"
  shows "load_from_file C self disk file = (''File loading error: '' @ str e, self', disk') \<and>
         current_document self' = current_document self \<and>
         document_source self' = document_source self"
proof -
  have "load_from_file C self disk file = (''File loading error: '' @ str e, self', disk')"
    using assms(1) by (simp add: load_from_file_def)
  moreover have "current_document self' = current_document self \<and>
      document_source self' = document_source self"
  proof (cases "endswith (name file) ''.txt'' \<or> endswith (name file) ''.md''")
    case True
    with assms(1) show ?thesis
      by (auto simp: load_from_file_body_def Let_def split: sum.splits)
  next
    case False
    show ?thesis
    proof (cases "write_temporary_file C disk file")
      case (Pair w disk1)
      show ?thesis
      proof (cases w)
        case (Inl e1)
        with False Pair assms(1) show ?thesis
          by (simp add: load_from_file_body_def)
      next
        case (Inr temp_path)
        obtain r self1 where ls: "load_structured C self disk1 file temp_path = (r, self1)"
          by (cases "load_structured C self disk1 file temp_path")
        have rm: "fst (remove_temporary_file C temp_path disk1) = Inr ()"
          by (simp add: remove_temporary_file_def assms(2))
        from False Pair Inr ls rm assms(1) have "r = Inl e \<and> self' = self1"
          by (cases "remove_temporary_file C temp_path disk1"; cases r)
             (auto simp: load_from_file_body_def)
        with ls load_structured_error_keeps_document [of C self disk1 "file" temp_path e self1]
        show ?thesis by simp
      qed
    qed
  qed
  ultimately show ?thesis by simp
qed

text \<open>
  C3: every ingestion call that fails (file-read error, parser error, search-provider
  error) returns a descriptive error string rather than raising, and leaves
  \<^verbatim>\<open>current_document\<close> and \<^verbatim>\<open>document_source\<close> unchanged. For the search provider the
  code departs from this: \<^verbatim>\<open>search\<close> catches the provider's exception and returns the
  message as an ordinary string, so the handler of \<^verbatim>\<open>load_from_web_search\<close> is never
  entered and the message replaces the current document. The theorem runs the code on
  a loader holding \<^verbatim>\<open>old document\<close> and a provider that raises \<^verbatim>\<open>timeout\<close>.
\<close>

theorem C3_search_error_replaces_document:
  "load_from_web_search (stub\<lparr>ddgs_text := raising ''timeout''\<rparr>)
     (snd (load_from_text init ''old document'')) ''q'' ''duckduckgo'' 3 =
   (''Search error: timeout'',
    init\<lparr>current_document := ''Search error: timeout'',
         document_source := ''DuckDuckGo Search: q''\<rparr>)"
  by (simp add: run_defs stub_defs)

subsection \<open>C6: when an index is built\<close>

lemma load_from_file_structured:
  assumes "\<not> (endswith (name file) ''.txt'' \<or> endswith (name file) ''.md'')"
    and "write_temporary_file C disk file = (Inr temp_path, disk1)"
    and "loader_load C temp_path disk1 = Inr docs"
  shows "fst (snd (load_from_file C self disk file)) =
           (case create_vector_store C self docs (join ''\<newline>\<newline>'' (map page_content docs)) of
              (Inl e, self1) \<Rightarrow> self1
            | (Inr u, self1) \<Rightarrow>
                self1\<lparr>current_document := join ''\<newline>\<newline>'' (map page_content docs),
                      document_source := name file\<rparr>)"
  using assms
  by (simp add: load_from_file_def load_from_file_body_def load_structured_def Let_def
      split: sum.splits prod.splits)

lemma get_relevant_context_no_index:
  assumes "vector_store self = None \<or> embeddings self = None"
    and "int (length (current_document self)) \<le> max_chars"
  shows "get_relevant_context C self query max_chars = (current_document self, self)"
  using assms
  by (auto simp: get_relevant_context_def full_document_def split: option.splits)

text \<open>
  For a text of at most 100 characters the embedding model and the index build are not
  used: the call does the same whatever they would return.
\<close>

lemma load_from_file_short_text_ignores_builders:
  assumes "\<not> (endswith (name file) ''.txt'' \<or> endswith (name file) ''.md'')"
    and "write_temporary_file C disk file = (Inr temp_path, disk1)"
    and "loader_load C temp_path disk1 = Inr docs"
    and "length (join ''\<newline>\<newline>'' (map page_content docs)) \<le> 100"
  shows "load_from_file (C\<lparr>new_embeddings := ne, from_documents := fd\<rparr>) self disk file =
           load_from_file C self disk file"
proof -
  let ?C = "C\<lparr>new_embeddings := ne, from_documents := fd\<rparr>"
  have w: "write_temporary_file ?C disk file = write_temporary_file C disk file"
    by (simp add: write_temporary_file_def Let_def split: sum.splits)
  have r: "remove_temporary_file ?C temp_path disk1 = remove_temporary_file C temp_path disk1"
    by (simp add: remove_temporary_file_def split: sum.splits)
  have "loader_load ?C temp_path disk1 = loader_load C temp_path disk1"
    by (simp add: loader_load_def)
  with assms(3,4)
  have l: "load_structured ?C self disk1 file temp_path = load_structured C self disk1 file temp_path"
    by (simp add: load_structured_def create_vector_store_def Let_def)
  from assms(1,2) w r l show ?thesis
    by (simp add: load_from_file_def load_from_file_body_def)
qed

lemma long_pdf_not_short_note: "getvalue long_pdf \<noteq> ''short note''"
proof
  assume "getvalue long_pdf = ''short note''"
  then have "length (getvalue long_pdf) = length ''short note''"
    by (rule arg_cong)
  then show False
    by (simp add: long_pdf_def)
qed

text \<open>
  C6 as stated: for every structured-file ingestion, an index is built if and only if
  the concatenated text is longer than 100 characters; and whenever the current document
  has no index and its raw text has at most \<open>max_chars\<close> characters,
  \<^verbatim>\<open>get_relevant_context\<close> returns exactly the raw text. Both parts fail. When the index
  build raises, the text is longer than 100 characters and no index is built: the parser
  returns one block of 101 characters, \<^verbatim>\<open>FAISS.from_documents\<close> raises, and
  \<^verbatim>\<open>vector_store\<close> is \<^verbatim>\<open>None\<close> after the call. And after a file of 101 characters
  followed by a file of 10 characters, the current document is the short one, for which
  no index was built and which fits \<open>max_chars\<close>, but \<^verbatim>\<open>get_relevant_context\<close> returns the
  passage of the first file.
\<close>

theorem C6_failed_build_and_stale_index_counterexample:
  "loader_load (stub\<lparr>from_documents := raising ''no index''\<rparr>) ''/tmp/tmpk3x9qz1a.pdf''
     [''/tmp/tmpk3x9qz1a.pdf'' \<mapsto> getvalue long_pdf] = Inr [\<lparr>page_content = getvalue long_pdf\<rparr>] \<and>
   100 < length (join ''\<newline>\<newline>'' (map page_content [\<lparr>page_content = getvalue long_pdf\<rparr>])) \<and>
   vector_store (fst (snd (load_from_file (stub\<lparr>from_documents := raising ''no index''\<rparr>)
     init Map.empty long_pdf))) = None \<and>
   current_document (fst (ingest_all stub [Load_from_file long_pdf, Load_from_file short_docx])) =
     ''short note'' \<and>
   \<not> 100 < length (current_document
     (fst (ingest_all stub [Load_from_file long_pdf, Load_from_file short_docx]))) \<and>
   int (length (current_document
     (fst (ingest_all stub [Load_from_file long_pdf, Load_from_file short_docx])))) \<le> 8000 \<and>
   fst (get_relevant_context stub
     (fst (ingest_all stub [Load_from_file long_pdf, Load_from_file short_docx])) ''q'' 8000) \<noteq>
     current_document (fst (ingest_all stub [Load_from_file long_pdf, Load_from_file short_docx]))"
  using long_pdf_not_short_note by (simp add: run_defs stub_defs)

text \<open>
  C6, amended: for every structured-file ingestion whose temporary file is written and
  whose parser succeeds: when the concatenated text is longer than 100 characters and
  both the embedding model and the index build succeed, the index built from the parsed
  blocks is installed together with the new document; on a loader that held no index
  before the call, an index is held after the call if and only if the text is longer
  than 100 characters and both of them succeed; a text of at most 100 characters becomes
  the current document, and the call does the same whatever the embedding model and the
  index build would return (they are not used). Whenever a loader holds no index at all (\<^verbatim>\<open>vector_store\<close> or
  \<^verbatim>\<open>embeddings\<close> is \<^verbatim>\<open>None\<close>) and the length of its raw text is at most \<open>max_chars\<close>,
  \<^verbatim>\<open>get_relevant_context\<close> returns exactly the raw text, with no truncation marker.
  Nothing is said of a loader that still holds the index of an earlier document when no
  new index is built.
\<close>

theorem C6_index_built_for_substantial_text:
  assumes "\<not> (endswith (name file) ''.txt'' \<or> endswith (name file) ''.md'')"
    and "write_temporary_file C disk file = (Inr temp_path, disk1)"
    and "loader_load C temp_path disk1 = Inr docs"
    and "text_content = join ''\<newline>\<newline>'' (map page_content docs)"
    and "self' = fst (snd (load_from_file C self disk file))"
  shows "(\<forall>emb ix. 100 < length text_content \<and> new_embeddings C = Inr emb \<and>
            from_documents C docs emb = Inr ix \<longrightarrow>
            vector_store self' = Some ix \<and> embeddings self' = Some emb \<and>
            current_document self' = text_content) \<and>
         (vector_store self = None \<longrightarrow>
            (vector_store self' \<noteq> None \<longleftrightarrow>
               100 < length text_content \<and>
               (\<exists>emb ix. new_embeddings C = Inr emb \<and> from_documents C docs emb = Inr ix))) \<and>
         (length text_content \<le> 100 \<longrightarrow>
            current_document self' = text_content \<and>
            (\<forall>ne fd. load_from_file (C\<lparr>new_embeddings := ne, from_documents := fd\<rparr>) self disk file =
               load_from_file C self disk file)) \<and>
         ((vector_store s = None \<or> embeddings s = None) \<and>
            int (length (current_document s)) \<le> max_chars \<longrightarrow>
            get_relevant_context C s query max_chars = (current_document s, s))"
proof -
  have eq: "self' =
      (case create_vector_store C self docs text_content of
         (Inl e, self1) \<Rightarrow> self1
       | (Inr u, self1) \<Rightarrow>
           self1\<lparr>current_document := text_content, document_source := name file\<rparr>)"
    unfolding assms(4,5) by (rule load_from_file_structured [OF assms(1,2,3)])
  have built: "vector_store self' = Some ix \<and> embeddings self' = Some emb \<and>
      current_document self' = text_content"
    if "100 < length text_content" "new_embeddings C = Inr emb" "from_documents C docs emb = Inr ix"
    for emb ix
    using that by (simp add: eq create_vector_store_def Let_def)
  have fresh: "vector_store self' \<noteq> None \<longleftrightarrow>
      100 < length text_content \<and>
      (\<exists>emb ix. new_embeddings C = Inr emb \<and> from_documents C docs emb = Inr ix)"
    if "vector_store self = None"
    using that by (auto simp: eq create_vector_store_def Let_def split: sum.splits)
  have short: "current_document self' = text_content" if "length text_content \<le> 100"
    using that by (simp add: eq create_vector_store_def)
  have unused: "load_from_file (C\<lparr>new_embeddings := ne, from_documents := fd\<rparr>) self disk file =
      load_from_file C self disk file"
    if "length text_content \<le> 100" for ne fd
    using that load_from_file_short_text_ignores_builders [OF assms(1,2,3)]
    by (simp add: assms(4))
  from built fresh short unused get_relevant_context_no_index [of s max_chars C query]
  show ?thesis by blast
qed

theorem C6_index_built_for_substantial_text_witness:
  "\<not> (endswith (name long_docx) ''.txt'' \<or> endswith (name long_docx) ''.md'') \<and>
   write_temporary_file stub Map.empty long_docx =
     (Inr ''/tmp/tmpk3x9qz1a.docx'', [''/tmp/tmpk3x9qz1a.docx'' \<mapsto> getvalue long_docx]) \<and>
   loader_load stub ''/tmp/tmpk3x9qz1a.docx'' [''/tmp/tmpk3x9qz1a.docx'' \<mapsto> getvalue long_docx] =
     Inr [\<lparr>page_content = getvalue long_docx\<rparr>] \<and>
   100 < length (getvalue long_docx) \<and>
   new_embeddings stub = Inr () \<and>
   from_documents stub [\<lparr>page_content = getvalue long_docx\<rparr>] () =
     Inr [\<lparr>page_content = getvalue long_docx\<rparr>] \<and>
   vector_store (fst (snd (load_from_file stub init Map.empty long_pdf))) =
     Some [\<lparr>page_content = getvalue long_pdf\<rparr>] \<and>
   vector_store (fst (snd (load_from_file stub
       (fst (snd (load_from_file stub init Map.empty long_pdf))) Map.empty long_docx))) =
     Some [\<lparr>page_content = getvalue long_docx\<rparr>] \<and>
   current_document (fst (snd (load_from_file stub
       (fst (snd (load_from_file stub init Map.empty long_pdf))) Map.empty long_docx))) =
     getvalue long_docx \<and>
   \<not> (endswith (name short_docx) ''.txt'' \<or> endswith (name short_docx) ''.md'') \<and>
   write_temporary_file stub Map.empty short_docx =
     (Inr ''/tmp/tmpk3x9qz1a.docx'', [''/tmp/tmpk3x9qz1a.docx'' \<mapsto> getvalue short_docx]) \<and>
   loader_load stub ''/tmp/tmpk3x9qz1a.docx'' [''/tmp/tmpk3x9qz1a.docx'' \<mapsto> getvalue short_docx] =
     Inr [\<lparr>page_content = getvalue short_docx\<rparr>] \<and>
   length (getvalue short_docx) \<le> 100 \<and>
   vector_store (init :: (langdoc list, unit) DocumentLoader) = None \<and>
   vector_store (fst (snd (load_from_file stub init Map.empty short_docx))) = None \<and>
   load_from_file (stub\<lparr>new_embeddings := Inl (Exception ''no model''),
       from_documents := raising ''no index''\<rparr>) init Map.empty short_docx =
     load_from_file stub init Map.empty short_docx \<and>
   int (length (current_document (fst (snd (load_from_file stub init Map.empty short_docx))))) \<le> 8000 \<and>
   get_relevant_context stub (fst (snd (load_from_file stub init Map.empty short_docx))) ''q'' 8000 =
     (''short note'', fst (snd (load_from_file stub init Map.empty short_docx)))"
  using C6_index_built_for_substantial_text [of long_docx stub Map.empty
      "''/tmp/tmpk3x9qz1a.docx''" "[''/tmp/tmpk3x9qz1a.docx'' \<mapsto> getvalue long_docx]"
      "[\<lparr>page_content = getvalue long_docx\<rparr>]" "getvalue long_docx"
      "fst (snd (load_from_file stub
         (fst (snd (load_from_file stub init Map.empty long_pdf))) Map.empty long_docx))"
      "fst (snd (load_from_file stub init Map.empty long_pdf))"
      "fst (snd (load_from_file stub init Map.empty short_docx))" 8000 "''q''"]
    C6_index_built_for_substantial_text [of short_docx stub Map.empty
      "''/tmp/tmpk3x9qz1a.docx''" "[''/tmp/tmpk3x9qz1a.docx'' \<mapsto> getvalue short_docx]"
      "[\<lparr>page_content = getvalue short_docx\<rparr>]" "getvalue short_docx"
      "fst (snd (load_from_file stub init Map.empty short_docx))" init
      "fst (snd (load_from_file stub init Map.empty short_docx))" 8000 "''q''"]
  by (simp add: run_defs stub_defs)

subsection \<open>C7: the temporary file\<close>

text \<open>
  On the paths that the \<^verbatim>\<open>finally\<close> clause guards (the parse succeeds, the parser raises,
  the embedding model or the index build raises) the temporary file is removed, when
  \<^verbatim>\<open>os.remove\<close> itself does not raise: the disk after the call is the disk before it
  without the temporary path.
\<close>

lemma temporary_file_removed_after_parse:
  assumes "\<not> (endswith (name file) ''.txt'' \<or> endswith (name file) ''.md'')"
    and "write_temporary_file C disk file = (Inr temp_path, disk1)"
    and "os_remove C temp_path disk1 = Inr ()"
  shows "snd (snd (load_from_file C self disk file)) = disk(temp_path := None)"
proof -
  from assms(2) have disk1: "disk1 = disk(temp_path \<mapsto> getvalue file)"
    by (auto simp: write_temporary_file_def Let_def split: sum.splits)
  have "remove_temporary_file C temp_path disk1 = (Inr (), disk(temp_path := None))"
    using assms(3) by (simp add: remove_temporary_file_def disk1)
  with assms(1,2) show ?thesis
    by (simp add: load_from_file_def load_from_file_body_def split: sum.splits prod.splits)
qed

text \<open>
  C7: for every call of \<^verbatim>\<open>load_from_file\<close> on a structured file (a name that ends
  neither in \<^verbatim>\<open>.txt\<close> nor in \<^verbatim>\<open>.md\<close>), the temporary file created during the call does
  not exist on disk when the call returns. The \<^verbatim>\<open>finally\<close> clause that removes the file
  guards the parse and the index build only: the file is created, with
  \<^verbatim>\<open>delete=False\<close>, and written before the inner \<^verbatim>\<open>try\<close> is entered. The theorem runs
  the code on a file whose write raises: the call returns the error message through the
  outer handler, and the file that was created is still on disk.
\<close>

theorem C7_temporary_file_left_when_write_raises:
  "load_from_file (stub\<lparr>tmp_write := raising ''No space left on device''\<rparr>) init Map.empty long_pdf =
     (''File loading error: No space left on device'', init,
      [''/tmp/tmpk3x9qz1a.pdf'' \<mapsto> []]) \<and>
   snd (snd (load_from_file (stub\<lparr>tmp_write := raising ''No space left on device''\<rparr>)
     init Map.empty long_pdf)) ''/tmp/tmpk3x9qz1a.pdf'' \<noteq> None"
  by (simp add: run_defs stub_defs)

subsection \<open>C8: determinism of the selected context\<close>

text \<open>
  C8: for every loader state, question and \<open>max_chars\<close>, two successive calls of
  \<^verbatim>\<open>get_relevant_context\<close> with the same arguments return identical strings, the
  similarity search being a function of the index, the query and \<open>k\<close>. The second call
  runs on the loader that the first call left, which is the loader it was given.
\<close>

theorem C8_get_relevant_context_deterministic:
  "get_relevant_context C (snd (get_relevant_context C self query max_chars)) query max_chars =
     get_relevant_context C self query max_chars"
  by (auto simp: get_relevant_context_def split: option.splits sum.splits)

subsection \<open>C9: failures of the extractive backend\<close>

text \<open>
  C9 as stated: when the extractive backend fails internally (pipeline not initialized,
  or the model call raises), \<^verbatim>\<open>answer_question\<close> returns a fixed error-sentinel answer
  with confidence 0.0. When the model call raises, the answer contains the message of
  the exception, so two failures give two different answers.
\<close>

theorem C9_error_answer_not_fixed_counterexample:
  "answer (answer_question \<lparr>qa_pipeline = Some (raising ''out of memory'')\<rparr> ''q'' ''c'') \<noteq>
   answer (answer_question \<lparr>qa_pipeline = Some (raising ''timeout'')\<rparr> ''q'' ''c'')"
  by (simp add: answer_question_def answer_question_body_def raising_def)

text \<open>
  C9, amended: for every question and context, \<^verbatim>\<open>answer_question\<close> returns rather than
  raises; when the pipeline is not initialized, the answer is the fixed string
  \<^verbatim>\<open>QA pipeline not initialized\<close> with confidence 0.0; when the model call raises, the
  answer is \<^verbatim>\<open>QA error: \<close> followed by the message of the exception, with confidence
  0.0.
\<close>

theorem C9_answer_question_on_failure:
  "(qa_pipeline self = None \<longrightarrow>
      answer_question self question context =
        \<lparr>answer = ''QA pipeline not initialized'', score = 0\<rparr>) \<and>
   (\<forall>p e. qa_pipeline self = Some p \<longrightarrow> p question context = Inl e \<longrightarrow>
      answer_question self question context = \<lparr>answer = ''QA error: '' @ str e, score = 0\<rparr>)"
  by (simp add: answer_question_def answer_question_body_def)

theorem C9_answer_question_on_failure_witness:
  "qa_pipeline (HuggingFaceQA_init (Inl (Exception ''no model''))) = None \<and>
   answer_question (HuggingFaceQA_init (Inl (Exception ''no model''))) ''q'' ''c'' =
     \<lparr>answer = ''QA pipeline not initialized'', score = 0\<rparr> \<and>
   qa_pipeline (HuggingFaceQA_init (Inr (raising ''timeout''))) = Some (raising ''timeout'') \<and>
   raising ''timeout'' ''q'' ''c'' = (Inl (Exception ''timeout'') :: exn + qa_result) \<and>
   answer_question (HuggingFaceQA_init (Inr (raising ''timeout''))) ''q'' ''c'' =
     \<lparr>answer = ''QA error: timeout'', score = 0\<rparr>"
  using C9_answer_question_on_failure [of "HuggingFaceQA_init (Inl (Exception ''no model''))" "''q''" "''c''"]
    C9_answer_question_on_failure [of "HuggingFaceQA_init (Inr (raising ''timeout''))" "''q''" "''c''"]
  by (simp add: HuggingFaceQA_init_def raising_def)

subsection \<open>C10: predefined examples\<close>

text \<open>
  The predefined examples are the three keys set by \<^verbatim>\<open>__init__\<close>, and no ingestion call
  changes them.
\<close>

lemma default_documents_init:
  "dom (default_documents (init :: ('ix, 'emb) DocumentLoader)) =
     {''solar_energy'', ''ai_ethics'', ''renewable_energy''}"
  by (auto simp: init_def split: if_splits)

lemma load_from_file_default_documents:
  "default_documents (fst (snd (load_from_file C self disk file))) = default_documents self"
  by (simp add: load_from_file_def load_from_file_body_def load_structured_def
      create_vector_store_def Let_def split: sum.splits prod.splits)

lemma ingest_default_documents:
  "default_documents (fst (ingest C sd call)) = default_documents (fst sd)"
  by (cases sd; cases call)
     (simp_all add: load_from_text_def load_from_example_def load_from_web_search_eq
        load_from_file_default_documents Let_def split: option.splits)

lemma ingest_all_default_documents:
  fixes C :: "('ix, 'emb) collaborators"
  shows "default_documents (fst (ingest_all C calls)) =
           default_documents (init :: ('ix, 'emb) DocumentLoader)"
proof -
  have "default_documents (fst (foldl (ingest C) sd calls)) = default_documents (fst sd)" for sd
    by (induction calls arbitrary: sd) (simp_all add: ingest_default_documents)
  then show ?thesis by (simp add: ingest_all_def)
qed

text \<open>
  C10: for every key that is not in the predefined example set, \<^verbatim>\<open>load_from_example\<close>
  returns \<^verbatim>\<open>Example not found. Please select a valid example.\<close> and leaves the loader
  (in particular \<^verbatim>\<open>current_document\<close> and \<^verbatim>\<open>document_source\<close>) unchanged; for every key
  in the set, it returns that example's text, sets \<^verbatim>\<open>current_document\<close> to it and
  \<^verbatim>\<open>document_source\<close> to \<^verbatim>\<open>Example: \<close> followed by the key, and changes no other field.
\<close>

theorem C10_load_from_example:
  "(example_key \<notin> dom (default_documents self) \<longrightarrow>
      load_from_example self example_key =
        (''Example not found. Please select a valid example.'', self)) \<and>
   (\<forall>doc. default_documents self example_key = Some doc \<longrightarrow>
      load_from_example self example_key =
        (doc, self\<lparr>current_document := doc, document_source := ''Example: '' @ example_key\<rparr>))"
  by (auto simp: load_from_example_def Let_def split: option.splits)

theorem C10_load_from_example_witness:
  "''tidal_energy'' \<notin> dom (default_documents (init :: (unit, unit) DocumentLoader)) \<and>
   load_from_example (init :: (unit, unit) DocumentLoader) ''tidal_energy'' =
     (''Example not found. Please select a valid example.'', init) \<and>
   default_documents (init :: (unit, unit) DocumentLoader) ''ai_ethics'' = Some ai_ethics_text \<and>
   load_from_example (init :: (unit, unit) DocumentLoader) ''ai_ethics'' =
     (ai_ethics_text,
      init\<lparr>current_document := ai_ethics_text, document_source := ''Example: ai_ethics''\<rparr>)"
  using C10_load_from_example [of "''tidal_energy''" "init :: (unit, unit) DocumentLoader"]
    C10_load_from_example [of "''ai_ethics''" "init :: (unit, unit) DocumentLoader"]
  by (simp add: init_def)

end
